theory Spec2Isabelle
  imports Main "HOL-Library.AList"
begin

section \<open>PyShell window management core\<close>

text \<open>
  A shallow embedding of the window management code of \<^verbatim>\<open>SDUX_DE_ALPHA_1.0.py\<close>:
  the class \<^verbatim>\<open>InternalWindow\<close> (drag, resize, maximize, focus), the class
  \<^verbatim>\<open>WorkspaceManager\<close> and the window list, overlay layout and application
  launcher of \<^verbatim>\<open>PyShellApp\<close>. Python integers are \<open>int\<close>, Python exceptions are
  values of \<open>py_error\<close>, and a method that mutates its object returns the updated object.
\<close>

subsection \<open>Constants\<close>

definition PANEL_HEIGHT :: int where
  "PANEL_HEIGHT = 48"

definition DOCK_WIDTH :: int where
  "DOCK_WIDTH = 64"

definition WORKSPACE_COUNT :: int where
  "WORKSPACE_COUNT = 4"

text \<open>The title bar is created with \<^verbatim>\<open>setFixedHeight(32)\<close>.\<close>

definition titlebar_height :: int where
  "titlebar_height = 32"

subsection \<open>Exceptions\<close>

datatype py_error =
    IndexError
  | ZeroDivisionError
  | TypeError
  | AttributeError
  | RuntimeError
  | OSError string

text \<open>The text \<^verbatim>\<open>str(e)\<close> of an exception, as the launcher puts it in a notification.\<close>

fun str_of_error :: "py_error \<Rightarrow> string" where
  "str_of_error IndexError = ''list index out of range''"
| "str_of_error ZeroDivisionError = ''integer division or modulo by zero''"
| "str_of_error TypeError = ''unsupported operand type(s)''"
| "str_of_error AttributeError = ''object has no attribute''"
| "str_of_error RuntimeError = ''wrapped C/C++ object has been deleted''"
| "str_of_error (OSError msg) = msg"

subsection \<open>Geometry\<close>

record QPoint =
  pt_x :: int
  pt_y :: int

record QRect =
  rect_x :: int
  rect_y :: int
  rect_w :: int
  rect_h :: int

definition pt_sub :: "QPoint \<Rightarrow> QPoint \<Rightarrow> QPoint" where
  "pt_sub p q = \<lparr>pt_x = pt_x p - pt_x q, pt_y = pt_y p - pt_y q\<rparr>"

definition topLeft :: "QRect \<Rightarrow> QPoint" where
  "topLeft r = \<lparr>pt_x = rect_x r, pt_y = rect_y r\<rparr>"

subsection \<open>Mouse events\<close>

datatype mouse_button = LeftButton | RightButton | MiddleButton

text \<open>
  \<open>ev_x\<close> and \<open>ev_y\<close> are the pointer position relative to the widget
  (\<^verbatim>\<open>ev.x()\<close>, \<^verbatim>\<open>ev.y()\<close>), \<open>globalPos\<close> the position on the screen.
\<close>

record QMouseEvent =
  button :: mouse_button
  ev_x :: int
  ev_y :: int
  globalPos :: QPoint

subsection \<open>InternalWindow\<close>

datatype content_widget = FancyTerminal | SimpleEditor | MiniBrowser string

text \<open>
  The fields of the class, with the two pieces of widget state its methods write:
  \<open>geometry\<close> (position and size inside the parent canvas) and \<open>visible\<close>.
  \<open>parent\<close> is the index of the workspace canvas the widget is a child of.
  The fields \<^verbatim>\<open>_dragging\<close>, \<^verbatim>\<open>_drag_offset\<close>, \<^verbatim>\<open>_resizing\<close>,
  \<^verbatim>\<open>_resize_start\<close> and \<^verbatim>\<open>_resize_initial_geom\<close> lose their leading underscore;
  \<open>None\<close> is Python's \<^verbatim>\<open>None\<close>.
\<close>

record InternalWindow =
  title :: string
  content :: content_widget
  parent :: "nat option"
  geometry :: QRect
  visible :: bool
  is_maximized :: bool
  prev_geometry :: QRect
  dragging :: bool
  drag_offset :: "QPoint option"
  resizing :: bool
  resize_start :: "QPoint option"
  resize_initial_geom :: "QRect option"

text \<open>
  The constructor: \<^verbatim>\<open>prev_geometry = QRect()\<close> is the null rectangle, the initial size
  is \<^verbatim>\<open>resize(640, 360)\<close>, and no gesture is in progress.
\<close>

definition InternalWindow_init :: "string \<Rightarrow> content_widget \<Rightarrow> nat option \<Rightarrow> InternalWindow" where
  "InternalWindow_init t c p =
     \<lparr>title = t, content = c, parent = p,
      geometry = \<lparr>rect_x = 0, rect_y = 0, rect_w = 640, rect_h = 360\<rparr>,
      visible = False,
      is_maximized = False,
      prev_geometry = \<lparr>rect_x = 0, rect_y = 0, rect_w = 0, rect_h = 0\<rparr>,
      dragging = False, drag_offset = None,
      resizing = False, resize_start = None, resize_initial_geom = None\<rparr>"

text \<open>
  The widget calls of the toolkit that the methods use, by their effect on the geometry:
  \<^verbatim>\<open>move\<close> writes the origin, \<^verbatim>\<open>setFixedSize\<close> the size, \<^verbatim>\<open>setGeometry\<close> the
  whole rectangle. The toolkit's own layout passes and size limits are not part of the
  program and are not modelled.
\<close>

definition move :: "InternalWindow \<Rightarrow> QPoint \<Rightarrow> InternalWindow" where
  "move w p = w\<lparr>geometry := (geometry w)\<lparr>rect_x := pt_x p, rect_y := pt_y p\<rparr>\<rparr>"

definition setFixedSize :: "InternalWindow \<Rightarrow> int \<Rightarrow> int \<Rightarrow> InternalWindow" where
  "setFixedSize w nw nh = w\<lparr>geometry := (geometry w)\<lparr>rect_w := nw, rect_h := nh\<rparr>\<rparr>"

definition setGeometry :: "InternalWindow \<Rightarrow> QRect \<Rightarrow> InternalWindow" where
  "setGeometry w r = w\<lparr>geometry := r\<rparr>"

text \<open>
  \<^verbatim>\<open>mousePressEvent\<close>. The second component tells whether the handler accepted the
  event (\<open>True\<close>) or passed it to the base class (\<open>False\<close>). For a child widget
  \<^verbatim>\<open>frameGeometry()\<close> is \<^verbatim>\<open>geometry()\<close>.
\<close>

definition mousePressEvent :: "InternalWindow \<Rightarrow> QMouseEvent \<Rightarrow> InternalWindow \<times> bool" where
  "mousePressEvent w ev =
     (if button ev = LeftButton then
        (if ev_y ev \<le> titlebar_height then
           (w\<lparr>dragging := True,
              drag_offset := Some (pt_sub (globalPos ev) (topLeft (geometry w)))\<rparr>, True)
         else if ev_x ev \<ge> rect_w (geometry w) - 12 \<and> ev_y ev \<ge> rect_h (geometry w) - 12 then
           (w\<lparr>resizing := True,
              resize_start := Some (globalPos ev),
              resize_initial_geom := Some (geometry w)\<rparr>, True)
         else (w, False))
      else (w, False))"

text \<open>
  \<^verbatim>\<open>mouseMoveEvent\<close>. Subtracting \<^verbatim>\<open>None\<close> from a point raises \<^verbatim>\<open>TypeError\<close>.
\<close>

definition mouseMoveEvent :: "InternalWindow \<Rightarrow> QMouseEvent \<Rightarrow> py_error + (InternalWindow \<times> bool)" where
  "mouseMoveEvent w ev =
     (if dragging w then
        (case drag_offset w of
           None \<Rightarrow> Inl TypeError
         | Some off \<Rightarrow> Inr (move w (pt_sub (globalPos ev) off), True))
      else if resizing w \<and> resize_initial_geom w \<noteq> None then
        (case resize_start w of
           None \<Rightarrow> Inl TypeError
         | Some st \<Rightarrow>
             (let delta = pt_sub (globalPos ev) st;
                  new_w = max 200 (rect_w (the (resize_initial_geom w)) + pt_x delta);
                  new_h = max 100 (rect_h (the (resize_initial_geom w)) + pt_y delta)
              in Inr (setFixedSize w new_w new_h, True)))
      else Inr (w, False))"

definition mouseReleaseEvent :: "InternalWindow \<Rightarrow> InternalWindow" where
  "mouseReleaseEvent w = w\<lparr>dragging := False, resizing := False\<rparr>"

text \<open>A run of pointer-move events delivered to one window, stopping at the first exception.\<close>

fun mouseMoves :: "InternalWindow \<Rightarrow> QMouseEvent list \<Rightarrow> py_error + InternalWindow" where
  "mouseMoves w [] = Inr w"
| "mouseMoves w (ev # evs) =
     (case mouseMoveEvent w ev of
        Inl e \<Rightarrow> Inl e
      | Inr (w', _) \<Rightarrow> mouseMoves w' evs)"

text \<open>
  \<^verbatim>\<open>on_min\<close> and \<^verbatim>\<open>on_max\<close>. \<open>parent_geom\<close> is the rectangle the method reads at the
  call: the parent's geometry, or the primary screen's when there is no parent.
  \<^verbatim>\<open>prev_geometry\<close> always holds a rectangle, so the guarded \<^verbatim>\<open>setGeometry\<close> of the
  restore branch does not raise.
\<close>

definition on_min :: "InternalWindow \<Rightarrow> InternalWindow" where
  "on_min w = w\<lparr>visible := False\<rparr>"

definition on_max :: "QRect \<Rightarrow> InternalWindow \<Rightarrow> InternalWindow" where
  "on_max parent_geom w =
     (if \<not> is_maximized w then
        (setGeometry (w\<lparr>prev_geometry := geometry w\<rparr>)
           \<lparr>rect_x = 10, rect_y = PANEL_HEIGHT + 10,
            rect_w = rect_w parent_geom - 20,
            rect_h = rect_h parent_geom - PANEL_HEIGHT - 20\<rparr>)\<lparr>is_maximized := True\<rparr>
      else
        (setGeometry w (prev_geometry w))\<lparr>is_maximized := False\<rparr>)"

subsection \<open>Workspace canvases and the workspace manager\<close>

type_synonym handle = nat

text \<open>
  A workspace canvas: \<open>layout_items\<close> are the widgets of its layout in insertion order
  (what \<^verbatim>\<open>list_windows\<close> reads), \<open>stacking\<close> is the stacking order of its child
  widgets, the topmost last (what \<^verbatim>\<open>raise_\<close> changes).
\<close>

record canvas =
  layout_items :: "handle list"
  stacking :: "handle list"

text \<open>\<open>stack_index\<close> is the current index of the \<^verbatim>\<open>QStackedLayout\<close>: the visible canvas.\<close>

record WorkspaceManager =
  count :: int
  workspaces :: "canvas list"
  current :: int
  stack_index :: int

definition WorkspaceManager_init :: "int \<Rightarrow> WorkspaceManager" where
  "WorkspaceManager_init n =
     \<lparr>count = n,
      workspaces = replicate (nat n) \<lparr>layout_items = [], stacking = []\<rparr>,
      current = 0,
      stack_index = (if 0 < n then 0 else - 1)\<rparr>"

text \<open>
  Python's list subscript \<^verbatim>\<open>xs[i]\<close>: a negative index counts from the end, and an
  index outside \<open>[-len, len)\<close> raises \<^verbatim>\<open>IndexError\<close>. The result is the position read.
\<close>

definition py_index :: "'a list \<Rightarrow> int \<Rightarrow> py_error + nat" where
  "py_index xs i =
     (if 0 \<le> i \<and> i < int (length xs) then Inr (nat i)
      else if - int (length xs) \<le> i \<and> i < 0 then Inr (nat (int (length xs) + i))
      else Inl IndexError)"

text \<open>
  \<^verbatim>\<open>QStackedLayout.setCurrentIndex\<close> ignores an index that names no widget of the stack.
\<close>

definition setCurrentIndex :: "WorkspaceManager \<Rightarrow> int \<Rightarrow> WorkspaceManager" where
  "setCurrentIndex wm i =
     (if 0 \<le> i \<and> i < int (length (workspaces wm)) then wm\<lparr>stack_index := i\<rparr> else wm)"

text \<open>\<^verbatim>\<open>switch_to\<close>. Python's \<^verbatim>\<open>%\<close> raises \<^verbatim>\<open>ZeroDivisionError\<close> on a zero divisor.\<close>

definition switch_to :: "WorkspaceManager \<Rightarrow> int \<Rightarrow> py_error + WorkspaceManager" where
  "switch_to wm index =
     (if count wm = 0 then Inl ZeroDivisionError
      else (let wm' = wm\<lparr>current := index mod count wm\<rparr>
            in Inr (setCurrentIndex wm' (current wm'))))"

text \<open>\<^verbatim>\<open>list_windows\<close>: each canvas index with the widgets of its layout.\<close>

definition list_windows :: "WorkspaceManager \<Rightarrow> (nat \<times> handle list) list" where
  "list_windows wm = zip [0 ..< length (workspaces wm)] (map layout_items (workspaces wm))"

subsection \<open>The shell\<close>

text \<open>
  The notification centre: its rectangle and its \<^verbatim>\<open>deque(maxlen=60)\<close> of pushed
  notifications (title and text).
\<close>

record NotificationCenter =
  nc_geometry :: QRect
  nc_notifications :: "(string \<times> string) list"

definition push :: "NotificationCenter \<Rightarrow> string \<Rightarrow> string \<Rightarrow> NotificationCenter" where
  "push nc t text =
     (let q = nc_notifications nc @ [(t, text)]
      in nc\<lparr>nc_notifications := drop (length q - 60) q\<rparr>)"

text \<open>
  The state of \<^verbatim>\<open>PyShellApp\<close> and of the widgets it owns. \<open>widgets\<close> maps the
  handle of every live \<^verbatim>\<open>InternalWindow\<close> object to its state; a handle that is not
  bound there is an object the toolkit has deleted. \<open>windows\<close> is the list
  \<^verbatim>\<open>self.windows\<close>. \<open>panel\<close>, \<open>dock\<close> and \<open>notifications\<close> are \<open>None\<close> while the
  attribute has not been assigned (what \<^verbatim>\<open>hasattr\<close> tests); the first two are kept
  as their rectangles. \<open>focus_widget\<close> is the widget \<^verbatim>\<open>setFocus\<close> was last called on,
  and \<open>spawned\<close> lists the argument vectors of the external processes started.
\<close>

record PyShellApp =
  workspace_manager :: WorkspaceManager
  windows :: "handle list"
  widgets :: "(handle \<times> InternalWindow) list"
  next_handle :: handle
  focus_widget :: "handle option"
  panel :: "QRect option"
  dock :: "QRect option"
  notifications :: "NotificationCenter option"
  spawned :: "string list list"

text \<open>Applying a change to canvas \<open>k\<close> of the manager; no canvas changes when \<open>k\<close> names none.\<close>

definition update_canvas :: "WorkspaceManager \<Rightarrow> nat \<Rightarrow> (canvas \<Rightarrow> canvas) \<Rightarrow> WorkspaceManager" where
  "update_canvas wm k f =
     (if k < length (workspaces wm)
      then wm\<lparr>workspaces := (workspaces wm)[k := f (workspaces wm ! k)]\<rparr>
      else wm)"

text \<open>
  The toolkit calls made on a window from the shell. Each raises \<^verbatim>\<open>RuntimeError\<close> on a
  deleted object, before changing anything. \<^verbatim>\<open>raise_\<close> (here \<open>raise_widget\<close>) puts the widget on top of its
  parent's stacking order; \<^verbatim>\<open>show\<close> makes it visible; \<^verbatim>\<open>addWidget\<close> on the layout of
  canvas \<open>k\<close> takes the widget out of the layout it was in, makes it a child of canvas
  \<open>k\<close> (on top) when it was not one, and appends it to the layout.
\<close>

definition raise_widget :: "PyShellApp \<Rightarrow> handle \<Rightarrow> py_error + PyShellApp" where
  "raise_widget s h =
     (case map_of (widgets s) h of
        None \<Rightarrow> Inl RuntimeError
      | Some w \<Rightarrow>
          (case parent w of
             None \<Rightarrow> Inr s
           | Some p \<Rightarrow>
               Inr (s\<lparr>workspace_manager :=
                        update_canvas (workspace_manager s) p
                          (\<lambda>c. c\<lparr>stacking := removeAll h (stacking c) @ [h]\<rparr>)\<rparr>)))"

definition show_widget :: "PyShellApp \<Rightarrow> handle \<Rightarrow> py_error + PyShellApp" where
  "show_widget s h =
     (case map_of (widgets s) h of
        None \<Rightarrow> Inl RuntimeError
      | Some w \<Rightarrow> Inr (s\<lparr>widgets := AList.update h (w\<lparr>visible := True\<rparr>) (widgets s)\<rparr>))"

definition addWidget :: "PyShellApp \<Rightarrow> nat \<Rightarrow> handle \<Rightarrow> py_error + PyShellApp" where
  "addWidget s k h =
     (case map_of (widgets s) h of
        None \<Rightarrow> Inl RuntimeError
      | Some w \<Rightarrow>
          (let wm = workspace_manager s;
               wm1 = (case parent w of
                        None \<Rightarrow> wm
                      | Some p \<Rightarrow>
                          update_canvas wm p
                            (\<lambda>c. c\<lparr>layout_items := removeAll h (layout_items c)\<rparr>));
               wm2 = (if parent w = Some k then wm1
                      else update_canvas
                             (case parent w of
                                None \<Rightarrow> wm1
                              | Some p \<Rightarrow>
                                  update_canvas wm1 p
                                    (\<lambda>c. c\<lparr>stacking := removeAll h (stacking c)\<rparr>))
                             k (\<lambda>c. c\<lparr>stacking := stacking c @ [h]\<rparr>));
               wm3 = update_canvas wm2 k (\<lambda>c. c\<lparr>layout_items := layout_items c @ [h]\<rparr>)
           in Inr (s\<lparr>workspace_manager := wm3,
                     widgets := AList.update h (w\<lparr>parent := Some k\<rparr>) (widgets s)\<rparr>)))"

text \<open>
  \<^verbatim>\<open>InternalWindow.focus_me\<close>: \<^verbatim>\<open>raise_\<close>, \<^verbatim>\<open>activateWindow\<close> (which acts on the
  top-level shell window only) and \<^verbatim>\<open>setFocus\<close>, with every exception swallowed.
\<close>

definition focus_me :: "PyShellApp \<Rightarrow> handle \<Rightarrow> PyShellApp" where
  "focus_me s h =
     (case raise_widget s h of
        Inl e \<Rightarrow> s
      | Inr s' \<Rightarrow> s'\<lparr>focus_widget := Some h\<rparr>)"

text \<open>\<^verbatim>\<open>WorkspaceManager.add_window\<close>; \<open>workspace = None\<close> is the default argument.\<close>

definition add_window :: "PyShellApp \<Rightarrow> handle \<Rightarrow> int option \<Rightarrow> py_error + PyShellApp" where
  "add_window s window workspace =
     (let idx = (case workspace of Some i \<Rightarrow> i | None \<Rightarrow> current (workspace_manager s))
      in case py_index (workspaces (workspace_manager s)) idx of
           Inl e \<Rightarrow> Inl e
         | Inr ws \<Rightarrow>
             (case addWidget s ws window of
                Inl e \<Rightarrow> Inl e
              | Inr s1 \<Rightarrow>
                  (case show_widget s1 window of
                     Inl e \<Rightarrow> Inl e
                   | Inr s2 \<Rightarrow> Inr (focus_me s2 window))))"

text \<open>The call \<^verbatim>\<open>self.workspace_manager.switch_to(idx)\<close> made on the shell's manager.\<close>

definition workspace_manager_switch_to :: "PyShellApp \<Rightarrow> int \<Rightarrow> py_error + PyShellApp" where
  "workspace_manager_switch_to s index =
     (case switch_to (workspace_manager s) index of
        Inl e \<Rightarrow> Inl e
      | Inr wm \<Rightarrow> Inr (s\<lparr>workspace_manager := wm\<rparr>))"


text \<open>\<^verbatim>\<open>on_window_closed\<close>: \<^verbatim>\<open>list.remove\<close> takes out the first occurrence.\<close>

definition on_window_closed :: "PyShellApp \<Rightarrow> handle \<Rightarrow> PyShellApp" where
  "on_window_closed s win = (if win \<in> set (windows s) then s\<lparr>windows := remove1 win (windows s)\<rparr> else s)"

text \<open>
  \<^verbatim>\<open>cycle_windows\<close>: \<^verbatim>\<open>w = self.windows.pop(0)\<close>, \<^verbatim>\<open>self.windows.append(w)\<close>, then
  \<^verbatim>\<open>w.raise_()\<close> and \<^verbatim>\<open>w.focus_me()\<close> with every exception swallowed.
\<close>

definition cycle_windows :: "PyShellApp \<Rightarrow> PyShellApp" where
  "cycle_windows s =
     (case windows s of
        [] \<Rightarrow> s
      | w # rest \<Rightarrow>
          (let s1 = s\<lparr>windows := rest @ [w]\<rparr>
           in case raise_widget s1 w of
                Inl e \<Rightarrow> s1
              | Inr s2 \<Rightarrow> focus_me s2 w))"

subsection \<open>Overlay layout\<close>

record QSize =
  size_w :: int
  size_h :: int

text \<open>\<^verbatim>\<open>reposition_overlays\<close>; \<open>screen_sz\<close> is the size of the primary screen it reads.\<close>

definition reposition_overlays :: "QSize \<Rightarrow> PyShellApp \<Rightarrow> PyShellApp" where
  "reposition_overlays screen_sz s =
     (if \<not> (panel s \<noteq> None \<and> dock s \<noteq> None \<and> notifications s \<noteq> None) then s
      else s\<lparr>panel := Some \<lparr>rect_x = 0, rect_y = 0,
                              rect_w = size_w screen_sz, rect_h = PANEL_HEIGHT\<rparr>,
              dock := Some \<lparr>rect_x = 8, rect_y = PANEL_HEIGHT + 8,
                             rect_w = DOCK_WIDTH,
                             rect_h = size_h screen_sz - PANEL_HEIGHT - 16\<rparr>,
              notifications :=
                Some ((the (notifications s))
                        \<lparr>nc_geometry := \<lparr>rect_x = size_w screen_sz - 340,
                                          rect_y = PANEL_HEIGHT + 8,
                                          rect_w = 320, rect_h = 400\<rparr>\<rparr>)\<rparr>)"

subsection \<open>Launching applications\<close>

text \<open>
  The five statements each of the four window branches consists of: construct the
  \<^verbatim>\<open>InternalWindow\<close> as a child of the current canvas (a new child is on top of the
  stacking order), connect \<^verbatim>\<open>window_closed\<close>, \<^verbatim>\<open>add_window\<close>, append to
  \<^verbatim>\<open>self.windows\<close>, return the window. The result carries the state reached, and the
  exception when one was raised.
\<close>

definition open_window ::
  "PyShellApp \<Rightarrow> string \<Rightarrow> content_widget \<Rightarrow> PyShellApp \<times> (py_error + handle option)" where
  "open_window s t c =
     (case py_index (workspaces (workspace_manager s)) (current (workspace_manager s)) of
        Inl e \<Rightarrow> (s, Inl e)
      | Inr p \<Rightarrow>
          (let win = next_handle s;
               s1 = s\<lparr>workspace_manager :=
                        update_canvas (workspace_manager s) p
                          (\<lambda>cv. cv\<lparr>stacking := stacking cv @ [win]\<rparr>),
                      widgets := AList.update win (InternalWindow_init t c (Some p)) (widgets s),
                      next_handle := Suc win\<rparr>
           in case add_window s1 win None of
                Inl e \<Rightarrow> (s1, Inl e)
              | Inr s2 \<Rightarrow> (s2\<lparr>windows := windows s2 @ [win]\<rparr>, Inr (Some win))))"

text \<open>
  \<^verbatim>\<open>launch_app\<close>. Two things it calls belong to Python and not to the program, and are
  parameters. \<open>str_lower\<close> is \<^verbatim>\<open>str.lower\<close>, whose case mapping is that of the Unicode
  database: it lowers capitals beyond A to Z as well, and the launcher is modelled for
  whatever it returns. \<open>popen\<close> is the outcome of \<^verbatim>\<open>subprocess.Popen\<close> on an argument
  vector: \<open>None\<close> when the process starts, the exception raised otherwise. The handler
  writes to the log file (not modelled) and pushes a notification; the result \<open>None\<close> is
  Python's \<^verbatim>\<open>None\<close>.
\<close>

definition launch_app ::
  "(string \<Rightarrow> string) \<Rightarrow> (string list \<Rightarrow> py_error option) \<Rightarrow> PyShellApp \<Rightarrow> string \<Rightarrow>
     py_error + (PyShellApp \<times> handle option)" where
  "launch_app str_lower popen s name0 =
     (let name = str_lower name0;
          r = (if name = ''terminal'' then open_window s ''Terminal'' FancyTerminal
               else if name = ''editor'' then open_window s ''Editor'' SimpleEditor
               else if name = ''browser'' then
                 open_window s ''Browser'' (MiniBrowser ''https://duckduckgo.com'')
               else if name = ''files'' then open_window s ''Files'' SimpleEditor
               else (case popen [name] of
                       None \<Rightarrow> (s\<lparr>spawned := spawned s @ [[name]]\<rparr>, Inr None)
                     | Some e \<Rightarrow> (s, Inl e)))
      in case r of
           (s', Inr win) \<Rightarrow> Inr (s', win)
         | (s', Inl e) \<Rightarrow>
             (case notifications s' of
                None \<Rightarrow> Inl AttributeError
              | Some nc \<Rightarrow>
                  Inr (s'\<lparr>notifications := Some (push nc ''Launch failed'' (str_of_error e))\<rparr>,
                       None)))"

text \<open>
  The shell as its constructor leaves it, before any application is launched: \<open>n\<close>
  empty workspaces, no window, the overlays placed for the screen size.
\<close>

definition PyShellApp_init :: "QSize \<Rightarrow> PyShellApp" where
  "PyShellApp_init screen_sz =
     reposition_overlays screen_sz
       \<lparr>workspace_manager = WorkspaceManager_init WORKSPACE_COUNT,
        windows = [],
        widgets = [],
        next_handle = 0,
        focus_widget = None,
        panel = Some \<lparr>rect_x = 0, rect_y = 0, rect_w = 0, rect_h = PANEL_HEIGHT\<rparr>,
        dock = Some \<lparr>rect_x = 0, rect_y = 0, rect_w = DOCK_WIDTH, rect_h = 0\<rparr>,
        notifications =
          Some \<lparr>nc_geometry = \<lparr>rect_x = 0, rect_y = 0, rect_w = 320, rect_h = 0\<rparr>,
                nc_notifications = []\<rparr>,
        spawned = []\<rparr>"

subsection \<open>Gesture sessions\<close>

text \<open>
  What stays true of a window from the pointer-down that starts a drag at screen
  position \<open>a\<close> with bounds \<open>g\<close> to the pointer-up, and the same for a resize.
\<close>

definition drag_session :: "QPoint \<Rightarrow> QRect \<Rightarrow> InternalWindow \<Rightarrow> bool" where
  "drag_session a g w \<longleftrightarrow>
     dragging w \<and> drag_offset w = Some (pt_sub a (topLeft g)) \<and>
     rect_w (geometry w) = rect_w g \<and> rect_h (geometry w) = rect_h g"

definition resize_session :: "QPoint \<Rightarrow> QRect \<Rightarrow> InternalWindow \<Rightarrow> bool" where
  "resize_session a g w \<longleftrightarrow>
     \<not> dragging w \<and> resizing w \<and> resize_start w = Some a \<and> resize_initial_geom w = Some g \<and>
     rect_x (geometry w) = rect_x g \<and> rect_y (geometry w) = rect_y g"

text \<open>The window after one pointer-move of a resize session.\<close>

definition resized :: "QPoint \<Rightarrow> QRect \<Rightarrow> InternalWindow \<Rightarrow> QMouseEvent \<Rightarrow> InternalWindow" where
  "resized a g w mv =
     setFixedSize w (max 200 (rect_w g + (pt_x (globalPos mv) - pt_x a)))
                    (max 100 (rect_h g + (pt_y (globalPos mv) - pt_y a)))"

subsection \<open>Example states\<close>

text \<open>A window with bounds \<open>(100, 100, 640, 360)\<close>.\<close>

definition example_window :: InternalWindow where
  "example_window =
     (InternalWindow_init ''Terminal'' FancyTerminal (Some 0))
       \<lparr>geometry := \<lparr>rect_x = 100, rect_y = 100, rect_w = 640, rect_h = 360\<rparr>\<rparr>"

definition pointer :: "mouse_button \<Rightarrow> int \<Rightarrow> int \<Rightarrow> int \<Rightarrow> int \<Rightarrow> QMouseEvent" where
  "pointer b lx ly gx gy =
     \<lparr>button = b, ev_x = lx, ev_y = ly, globalPos = \<lparr>pt_x = gx, pt_y = gy\<rparr>\<rparr>"

text \<open>
  The shell on a 1280 by 720 screen, and the shell after the terminal, the editor and the
  browser have been opened in workspace 0.
\<close>

definition example_shell :: PyShellApp where
  "example_shell = PyShellApp_init \<lparr>size_w = 1280, size_h = 720\<rparr>"

text \<open>
  What \<^verbatim>\<open>str.lower\<close> returns on a string of ASCII characters: the letters A to Z are
  lowered and nothing else changes. It stands for \<^verbatim>\<open>str.lower\<close> in the examples, whose
  names are ASCII; on other strings it is not \<^verbatim>\<open>str.lower\<close>, and no theorem about the
  launcher depends on it.
\<close>

definition ascii_lower_char :: "char \<Rightarrow> char" where
  "ascii_lower_char c =
     (let n = (of_char c :: nat)
      in if 65 \<le> n \<and> n \<le> 90 then char_of (n + 32) else c)"

definition ascii_lower :: "string \<Rightarrow> string" where
  "ascii_lower name = map ascii_lower_char name"

text \<open>The shell after \<^verbatim>\<open>launch_app\<close> with an ASCII name, every process starting.\<close>

definition launched :: "PyShellApp \<Rightarrow> string \<Rightarrow> PyShellApp" where
  "launched s name =
     (case launch_app ascii_lower (\<lambda>argv. None) s name of
        Inr (s', win) \<Rightarrow> s'
      | Inl e \<Rightarrow> s)"

definition one_window :: PyShellApp where
  "one_window = launched example_shell ''terminal''"

definition three_windows :: PyShellApp where
  "three_windows = launched (launched (launched example_shell ''terminal'') ''editor'') ''browser''"

section \<open>Properties\<close>

subsection \<open>Drag and resize gestures\<close>

lemma mouseMoves_append:
  "mouseMoves w (xs @ ys) =
     (case mouseMoves w xs of Inl e \<Rightarrow> Inl e | Inr w' \<Rightarrow> mouseMoves w' ys)"
  by (induction xs arbitrary: w) (auto split: sum.splits)

lemma press_starts_drag:
  assumes "button press = LeftButton" and "ev_y press \<le> titlebar_height"
  shows "drag_session (globalPos press) (geometry w) (fst (mousePressEvent w press))"
  using assms by (simp add: mousePressEvent_def drag_session_def)

lemma drag_step:
  assumes "drag_session a g w"
  shows "mouseMoveEvent w mv =
           Inr (move w (pt_sub (globalPos mv) (pt_sub a (topLeft g))), True)"
    and "drag_session a g (move w (pt_sub (globalPos mv) (pt_sub a (topLeft g))))"
  using assms by (simp_all add: mouseMoveEvent_def drag_session_def move_def)

lemma drag_moves:
  "drag_session a g w \<Longrightarrow> \<exists>w'. mouseMoves w mvs = Inr w' \<and> drag_session a g w'"
proof (induction mvs arbitrary: w)
  case Nil
  then show ?case by simp
next
  case (Cons mv mvs)
  from drag_step [OF Cons.prems, of mv] Cons.IH show ?case by simp
qed

lemma drag_geometry:
  assumes "drag_session a g w"
  shows "geometry (move w (pt_sub (globalPos mv) (pt_sub a (topLeft g)))) =
           \<lparr>rect_x = rect_x g + (pt_x (globalPos mv) - pt_x a),
            rect_y = rect_y g + (pt_y (globalPos mv) - pt_y a),
            rect_w = rect_w g, rect_h = rect_h g\<rparr>"
  using assms by (simp add: drag_session_def move_def pt_sub_def topLeft_def)

text \<open>
  C7. A left-button pointer-down in the title bar starts a drag. After any run of
  pointer-moves of that gesture the origin of the window is its origin at the
  pointer-down plus the pointer's displacement since then (the last pointer position
  minus the anchor), whatever the sign or size of that displacement, and the width and
  height are those at the pointer-down.
\<close>

theorem drag_gesture:
  assumes "button press = LeftButton" and "ev_y press \<le> titlebar_height"
  shows "\<exists>w'. mouseMoves (fst (mousePressEvent w press)) (mvs @ [mv]) = Inr w' \<and>
           geometry w' =
             \<lparr>rect_x = rect_x (geometry w) + (pt_x (globalPos mv) - pt_x (globalPos press)),
              rect_y = rect_y (geometry w) + (pt_y (globalPos mv) - pt_y (globalPos press)),
              rect_w = rect_w (geometry w), rect_h = rect_h (geometry w)\<rparr>"
proof -
  let ?a = "globalPos press" and ?g = "geometry w"
  have "drag_session ?a ?g (fst (mousePressEvent w press))"
    using assms by (rule press_starts_drag)
  then obtain w1 where w1: "mouseMoves (fst (mousePressEvent w press)) mvs = Inr w1"
    and s1: "drag_session ?a ?g w1"
    using drag_moves by blast
  have "mouseMoves (fst (mousePressEvent w press)) (mvs @ [mv]) =
          Inr (move w1 (pt_sub (globalPos mv) (pt_sub ?a (topLeft ?g))))"
    by (simp add: mouseMoves_append w1 drag_step(1) [OF s1])
  with drag_geometry [OF s1, of mv] show ?thesis by simp
qed

text \<open>The scenario: bounds \<open>(100, 100, 640, 360)\<close> dragged by \<open>(50, -30)\<close>.\<close>

theorem drag_gesture_witness:
  "button (pointer LeftButton 20 10 500 500) = LeftButton \<and>
   ev_y (pointer LeftButton 20 10 500 500) \<le> titlebar_height \<and>
   (\<exists>w'. mouseMoves (fst (mousePressEvent example_window (pointer LeftButton 20 10 500 500)))
            [pointer LeftButton 20 10 550 470] = Inr w' \<and>
          geometry w' = \<lparr>rect_x = 150, rect_y = 70, rect_w = 640, rect_h = 360\<rparr>)"
proof -
  have b: "button (pointer LeftButton 20 10 500 500) = LeftButton"
    by (simp add: pointer_def)
  have y: "ev_y (pointer LeftButton 20 10 500 500) \<le> titlebar_height"
    by (simp add: pointer_def titlebar_height_def)
  from drag_gesture [OF b y, of example_window "[]" "pointer LeftButton 20 10 550 470"] b y
  show ?thesis
    by (simp add: pointer_def example_window_def InternalWindow_init_def)
qed

lemma press_starts_resize:
  assumes "button press = LeftButton" and "titlebar_height < ev_y press"
    and "rect_w (geometry w) - 12 \<le> ev_x press" and "rect_h (geometry w) - 12 \<le> ev_y press"
    and "\<not> dragging w"
  shows "resize_session (globalPos press) (geometry w) (fst (mousePressEvent w press))"
  using assms by (simp add: mousePressEvent_def resize_session_def)

lemma resize_step:
  assumes "resize_session a g w"
  shows "mouseMoveEvent w mv = Inr (resized a g w mv, True)"
    and "resize_session a g (resized a g w mv)"
  using assms
  by (simp_all add: mouseMoveEvent_def resize_session_def resized_def setFixedSize_def
      pt_sub_def Let_def)

lemma resize_moves:
  "resize_session a g w \<Longrightarrow> \<exists>w'. mouseMoves w mvs = Inr w' \<and> resize_session a g w'"
proof (induction mvs arbitrary: w)
  case Nil
  then show ?case by simp
next
  case (Cons mv mvs)
  from resize_step [OF Cons.prems, of mv] Cons.IH show ?case by simp
qed

lemma resize_geometry:
  assumes "resize_session a g w"
  shows "geometry (resized a g w mv) =
           \<lparr>rect_x = rect_x g, rect_y = rect_y g,
            rect_w = max 200 (rect_w g + (pt_x (globalPos mv) - pt_x a)),
            rect_h = max 100 (rect_h g + (pt_y (globalPos mv) - pt_y a))\<rparr>"
  using assms by (simp add: resize_session_def resized_def setFixedSize_def)

text \<open>
  C6. A left-button pointer-down below the title bar and inside the 12 by 12 corner of a
  window that is not being dragged starts a resize. After any run of pointer-moves of
  that gesture, with \<open>(x, y, w, h)\<close> the bounds at the pointer-down and \<open>(dx, dy)\<close> the
  last pointer position minus the anchor, the bounds are
  \<open>(x, y, max 200 (w + dx), max 100 (h + dy))\<close>: the origin has not moved and the size is
  at least 200 by 100 however negative the displacement.
\<close>

theorem resize_gesture:
  assumes "button press = LeftButton" and "titlebar_height < ev_y press"
    and "rect_w (geometry w) - 12 \<le> ev_x press" and "rect_h (geometry w) - 12 \<le> ev_y press"
    and "\<not> dragging w"
  shows "\<exists>w'. mouseMoves (fst (mousePressEvent w press)) (mvs @ [mv]) = Inr w' \<and>
           geometry w' =
             \<lparr>rect_x = rect_x (geometry w), rect_y = rect_y (geometry w),
              rect_w = max 200 (rect_w (geometry w) +
                                (pt_x (globalPos mv) - pt_x (globalPos press))),
              rect_h = max 100 (rect_h (geometry w) +
                                (pt_y (globalPos mv) - pt_y (globalPos press)))\<rparr> \<and>
           200 \<le> rect_w (geometry w') \<and> 100 \<le> rect_h (geometry w')"
proof -
  let ?a = "globalPos press" and ?g = "geometry w"
  have "resize_session ?a ?g (fst (mousePressEvent w press))"
    using assms by (rule press_starts_resize)
  then obtain w1 where w1: "mouseMoves (fst (mousePressEvent w press)) mvs = Inr w1"
    and s1: "resize_session ?a ?g w1"
    using resize_moves by blast
  have "mouseMoves (fst (mousePressEvent w press)) (mvs @ [mv]) = Inr (resized ?a ?g w1 mv)"
    by (simp add: mouseMoves_append w1 resize_step(1) [OF s1])
  with resize_geometry [OF s1, of mv] show ?thesis by simp
qed

text \<open>The scenario: bounds \<open>(100, 100, 640, 360)\<close> resized by \<open>(-900, -900)\<close>.\<close>

theorem resize_gesture_witness:
  "button (pointer LeftButton 635 355 735 455) = LeftButton \<and>
   titlebar_height < ev_y (pointer LeftButton 635 355 735 455) \<and>
   rect_w (geometry example_window) - 12 \<le> ev_x (pointer LeftButton 635 355 735 455) \<and>
   rect_h (geometry example_window) - 12 \<le> ev_y (pointer LeftButton 635 355 735 455) \<and>
   \<not> dragging example_window \<and>
   (\<exists>w'. mouseMoves (fst (mousePressEvent example_window (pointer LeftButton 635 355 735 455)))
            [pointer LeftButton 0 0 (- 165) (- 445)] = Inr w' \<and>
          geometry w' = \<lparr>rect_x = 100, rect_y = 100, rect_w = 200, rect_h = 100\<rparr>)"
proof -
  let ?p = "pointer LeftButton 635 355 735 455"
  have b: "button ?p = LeftButton"
    by (simp add: pointer_def)
  have y: "titlebar_height < ev_y ?p"
    by (simp add: pointer_def titlebar_height_def)
  have cx: "rect_w (geometry example_window) - 12 \<le> ev_x ?p"
    by (simp add: pointer_def example_window_def)
  have cy: "rect_h (geometry example_window) - 12 \<le> ev_y ?p"
    by (simp add: pointer_def example_window_def)
  have d: "\<not> dragging example_window"
    by (simp add: example_window_def InternalWindow_init_def)
  from resize_gesture [OF b y cx cy d, of "[]" "pointer LeftButton 0 0 (- 165) (- 445)"]
  obtain w' where
    "mouseMoves (fst (mousePressEvent example_window ?p))
       [pointer LeftButton 0 0 (- 165) (- 445)] = Inr w'"
    and "geometry w' = \<lparr>rect_x = 100, rect_y = 100, rect_w = 200, rect_h = 100\<rparr>"
    by (auto simp add: pointer_def example_window_def)
  with b y cx cy d show ?thesis
    by blast
qed

subsection \<open>Maximize\<close>

text \<open>
  C5. For a window that is not maximized, the first \<^verbatim>\<open>on_max\<close> saves the bounds in
  \<^verbatim>\<open>prev_geometry\<close> and sets \<^verbatim>\<open>is_maximized\<close>; a second \<^verbatim>\<open>on_max\<close> with nothing in
  between puts the bounds back exactly and clears \<^verbatim>\<open>is_maximized\<close>, whatever the
  parent's size is at either call.
\<close>

theorem on_max_round_trip:
  assumes "\<not> is_maximized w"
  shows "prev_geometry (on_max pg w) = geometry w \<and> is_maximized (on_max pg w) \<and>
         geometry (on_max pg' (on_max pg w)) = geometry w \<and>
         \<not> is_maximized (on_max pg' (on_max pg w))"
  using assms by (simp add: on_max_def setGeometry_def)

theorem on_max_round_trip_witness:
  "\<not> is_maximized example_window \<and>
   geometry (on_max \<lparr>rect_x = 0, rect_y = 48, rect_w = 1280, rect_h = 672\<rparr> example_window) =
     \<lparr>rect_x = 10, rect_y = 58, rect_w = 1260, rect_h = 604\<rparr> \<and>
   geometry (on_max \<lparr>rect_x = 0, rect_y = 48, rect_w = 1280, rect_h = 672\<rparr>
              (on_max \<lparr>rect_x = 0, rect_y = 48, rect_w = 1280, rect_h = 672\<rparr> example_window)) =
     \<lparr>rect_x = 100, rect_y = 100, rect_w = 640, rect_h = 360\<rparr> \<and>
   \<not> is_maximized (on_max \<lparr>rect_x = 0, rect_y = 48, rect_w = 1280, rect_h = 672\<rparr>
              (on_max \<lparr>rect_x = 0, rect_y = 48, rect_w = 1280, rect_h = 672\<rparr> example_window))"
proof -
  have m: "\<not> is_maximized example_window"
    by (simp add: example_window_def InternalWindow_init_def)
  have g: "geometry example_window = \<lparr>rect_x = 100, rect_y = 100, rect_w = 640, rect_h = 360\<rparr>"
    by (simp add: example_window_def)
  have f: "geometry (on_max \<lparr>rect_x = 0, rect_y = 48, rect_w = 1280, rect_h = 672\<rparr> example_window) =
             \<lparr>rect_x = 10, rect_y = 58, rect_w = 1260, rect_h = 604\<rparr>"
    using m by (simp add: on_max_def setGeometry_def PANEL_HEIGHT_def)
  from on_max_round_trip [OF m, of "\<lparr>rect_x = 0, rect_y = 48, rect_w = 1280, rect_h = 672\<rparr>"
      "\<lparr>rect_x = 0, rect_y = 48, rect_w = 1280, rect_h = 672\<rparr>"] m g f
  show ?thesis by simp
qed

subsection \<open>The window list\<close>

lemma three_windows_ring: "windows three_windows = [0, 1, 2]"
  by code_simp

lemma raise_widget_windows: "raise_widget s h = Inr s' \<Longrightarrow> windows s' = windows s"
  by (auto simp: raise_widget_def split: option.splits)

lemma raise_widget_widgets: "raise_widget s h = Inr s' \<Longrightarrow> widgets s' = widgets s"
  by (auto simp: raise_widget_def split: option.splits)

lemma focus_me_windows: "windows (focus_me s h) = windows s"
  by (auto simp: focus_me_def dest: raise_widget_windows split: sum.splits)

lemma cycle_windows_rotate1: "windows (cycle_windows s) = rotate1 (windows s)"
  by (auto simp: cycle_windows_def Let_def focus_me_windows dest: raise_widget_windows
      split: list.splits sum.splits)

lemma cycle_windows_rotate: "windows ((cycle_windows ^^ n) s) = rotate n (windows s)"
  by (induction n) (simp_all add: cycle_windows_rotate1)

text \<open>
  C8. \<^verbatim>\<open>cycle_windows\<close> on an empty window list changes nothing; otherwise each call
  moves the first handle of the list to the end, and as many calls as the list has
  handles bring the list back to its original order.
\<close>

theorem cycle_law:
  "(windows s = [] \<longrightarrow> cycle_windows s = s) \<and>
   windows (cycle_windows s) = rotate1 (windows s) \<and>
   windows ((cycle_windows ^^ length (windows s)) s) = windows s"
  by (simp add: cycle_windows_rotate cycle_windows_rotate1) (simp add: cycle_windows_def)

text \<open>No window, and the three windows of the scenario cycled three times.\<close>

theorem cycle_law_witness:
  "windows example_shell = [] \<and>
   cycle_windows example_shell = example_shell \<and>
   length (windows three_windows) = 3 \<and>
   hd (windows ((cycle_windows ^^ 3) three_windows)) = hd (windows three_windows)"
proof -
  have e: "windows example_shell = []"
    by code_simp
  have l: "length (windows three_windows) = 3"
    by (simp add: three_windows_ring)
  from cycle_law [of example_shell] e
  have 1: "cycle_windows example_shell = example_shell"
    by simp
  from cycle_law [of three_windows] l
  have 2: "windows ((cycle_windows ^^ 3) three_windows) = windows three_windows"
    by simp
  from e l 1 2 show ?thesis by simp
qed

lemma raise_widget_live:
  assumes "map_of (widgets s) h = Some win"
  shows "\<exists>s'. raise_widget s h = Inr s' \<and> windows s' = windows s \<and> widgets s' = widgets s \<and>
           focus_widget s' = focus_widget s \<and>
           length (workspaces (workspace_manager s')) =
             length (workspaces (workspace_manager s)) \<and>
           (\<forall>p. parent win = Some p \<and> p < length (workspaces (workspace_manager s)) \<longrightarrow>
                last (stacking (workspaces (workspace_manager s') ! p)) = h)"
  using assms
  by (auto simp: raise_widget_def update_canvas_def split: option.splits)

text \<open>
  C1, as the code has it. For a non-empty window list whose first handle \<open>w\<close> is a live
  window, \<^verbatim>\<open>cycle_windows\<close> moves \<open>w\<close> from the front of the list to the back and then
  raises and focuses \<open>w\<close> itself: the window that ends up on top of its canvas and with
  the input focus is the one now at the back of the list. When \<open>w\<close> is the only handle
  it is the front of the list as well; when there are more, the front is the handle
  that was second.
\<close>

theorem cycle_windows_focus:
  assumes "windows s = w # rest" and "map_of (widgets s) w = Some win"
  shows "windows (cycle_windows s) = rest @ [w] \<and>
         last (windows (cycle_windows s)) = w \<and>
         (rest = [] \<longrightarrow> hd (windows (cycle_windows s)) = w) \<and>
         (rest \<noteq> [] \<longrightarrow> hd (windows (cycle_windows s)) = hd rest) \<and>
         focus_widget (cycle_windows s) = Some w \<and>
         (\<forall>p. parent win = Some p \<and> p < length (workspaces (workspace_manager s)) \<longrightarrow>
              last (stacking (workspaces (workspace_manager (cycle_windows s)) ! p)) = w)"
proof -
  let ?s1 = "s\<lparr>windows := rest @ [w]\<rparr>"
  have live1: "map_of (widgets ?s1) w = Some win"
    using assms(2) by simp
  from raise_widget_live [OF live1] obtain s2 where
    r1: "raise_widget ?s1 w = Inr s2" and w2: "windows s2 = rest @ [w]"
    and g2: "widgets s2 = widgets s"
    and l2: "length (workspaces (workspace_manager s2)) =
               length (workspaces (workspace_manager s))"
    by auto
  have live2: "map_of (widgets s2) w = Some win"
    using assms(2) g2 by simp
  from raise_widget_live [OF live2] obtain s3 where
    r2: "raise_widget s2 w = Inr s3" and w3: "windows s3 = rest @ [w]"
    and top: "\<forall>p. parent win = Some p \<and> p < length (workspaces (workspace_manager s)) \<longrightarrow>
                last (stacking (workspaces (workspace_manager s3) ! p)) = w"
    using w2 l2 by auto
  have "cycle_windows s = s3\<lparr>focus_widget := Some w\<rparr>"
    using assms(1) r1 r2 by (simp add: cycle_windows_def focus_me_def)
  with w3 top show ?thesis by simp
qed

text \<open>
  The three windows of the scenario, where the focused window 0 is at the back and
  window 1 at the front, and a shell with one window, where it is at both ends.
\<close>

theorem cycle_windows_focus_witness:
  "windows three_windows = 0 # [1, 2] \<and>
   map_option parent (map_of (widgets three_windows) 0) = Some (Some 0) \<and>
   windows (cycle_windows three_windows) = [1, 2, 0] \<and>
   hd (windows (cycle_windows three_windows)) = 1 \<and>
   focus_widget (cycle_windows three_windows) = Some 0 \<and>
   last (stacking (workspaces (workspace_manager (cycle_windows three_windows)) ! 0)) = 0 \<and>
   windows one_window = 0 # [] \<and>
   map_option parent (map_of (widgets one_window) 0) = Some (Some 0) \<and>
   hd (windows (cycle_windows one_window)) = 0 \<and>
   focus_widget (cycle_windows one_window) = Some 0"
proof -
  have r: "windows three_windows = 0 # [1, 2]"
    by (simp add: three_windows_ring)
  have pw: "map_option parent (map_of (widgets three_windows) 0) = Some (Some 0)"
    by code_simp
  then obtain win where live: "map_of (widgets three_windows) 0 = Some win"
    and p: "parent win = Some 0"
    by auto
  have l: "length (workspaces (workspace_manager three_windows)) = 4"
    by code_simp
  from cycle_windows_focus [OF r live] p l
  have three: "windows (cycle_windows three_windows) = [1, 2, 0] \<and>
      hd (windows (cycle_windows three_windows)) = 1 \<and>
      focus_widget (cycle_windows three_windows) = Some 0 \<and>
      last (stacking (workspaces (workspace_manager (cycle_windows three_windows)) ! 0)) = 0"
    by simp
  have r1: "windows one_window = 0 # []"
    by code_simp
  have pw1: "map_option parent (map_of (widgets one_window) 0) = Some (Some 0)"
    by code_simp
  then obtain win1 where live1: "map_of (widgets one_window) 0 = Some win1"
    by auto
  from cycle_windows_focus [OF r1 live1]
  have one: "hd (windows (cycle_windows one_window)) = 0 \<and>
      focus_widget (cycle_windows one_window) = Some 0"
    by simp
  from r pw three r1 pw1 one show ?thesis
    by simp
qed

text \<open>
  C1 as stated fails on the three windows of the scenario: after \<^verbatim>\<open>cycle_windows\<close>
  the front of the list is window 1, while the window that was raised and focused is
  window 0.
\<close>

theorem cycle_focus_counterexample:
  "windows three_windows = [0, 1, 2] \<and>
   hd (windows (cycle_windows three_windows)) = 1 \<and>
   focus_widget (cycle_windows three_windows) = Some 0 \<and>
   last (stacking (hd (workspaces (workspace_manager (cycle_windows three_windows))))) = 0 \<and>
   focus_widget (cycle_windows three_windows) \<noteq>
     Some (hd (windows (cycle_windows three_windows)))"
  by code_simp

subsection \<open>Pointer-down and the window list\<close>




subsection \<open>Workspace indices\<close>

text \<open>
  C2, as the code has it. \<^verbatim>\<open>switch_to\<close> on a manager with at least one workspace never
  fails: for every integer index, in range or not, it sets \<^verbatim>\<open>current\<close> to the index
  modulo \<^verbatim>\<open>count\<close>, which is a valid index. \<^verbatim>\<open>add_window\<close> with a workspace index that
  is at least the number of workspaces, or below its negation, raises \<^verbatim>\<open>IndexError\<close>
  before it touches any workspace.
\<close>

theorem out_of_range_index:
  "(0 < count wm \<longrightarrow>
      (\<exists>wm'. switch_to wm i = Inr wm' \<and> current wm' = i mod count wm \<and>
              0 \<le> current wm' \<and> current wm' < count wm)) \<and>
   (int (length (workspaces (workspace_manager s))) \<le> i \<or>
    i < - int (length (workspaces (workspace_manager s))) \<longrightarrow>
      add_window s h (Some i) = Inl IndexError)"
  by (auto simp: switch_to_def setCurrentIndex_def Let_def add_window_def py_index_def)

theorem out_of_range_index_witness:
  "0 < count (workspace_manager example_shell) \<and>
   (\<exists>wm'. switch_to (workspace_manager example_shell) 7 = Inr wm' \<and> current wm' = 3) \<and>
   int (length (workspaces (workspace_manager example_shell))) \<le> 7 \<and>
   add_window example_shell 0 (Some 7) = Inl IndexError"
proof -
  have c: "count (workspace_manager example_shell) = 4"
    by code_simp
  have l: "length (workspaces (workspace_manager example_shell)) = 4"
    by code_simp
  from out_of_range_index [of "workspace_manager example_shell" 7 example_shell 0] c l
  show ?thesis by auto
qed

text \<open>
  C2 as stated fails: index 7 is outside \<open>[0, 4)\<close>, and \<^verbatim>\<open>switch_to\<close> with it on the
  four-workspace manager returns normally and changes \<^verbatim>\<open>current\<close> from 0 to 3.
\<close>

theorem index_counterexample:
  "\<not> (0 \<le> (7::int) \<and> (7::int) < WORKSPACE_COUNT) \<and>
   current (WorkspaceManager_init WORKSPACE_COUNT) = 0 \<and>
   switch_to (WorkspaceManager_init WORKSPACE_COUNT) 7 =
     Inr ((WorkspaceManager_init WORKSPACE_COUNT)\<lparr>current := 3, stack_index := 3\<rparr>)"
  by (simp add: WORKSPACE_COUNT_def WorkspaceManager_init_def switch_to_def
      setCurrentIndex_def)

text \<open>
  A negative index from \<open>-N\<close> to \<open>-1\<close> is a valid list subscript in Python: with
  \<open>-1\<close> the window goes to the last of the four workspaces.
\<close>

lemma add_window_negative_index:
  "map_sum id (\<lambda>s. map layout_items (workspaces (workspace_manager s)))
     (add_window (launched example_shell ''terminal'') 0 (Some (- 1))) =
   Inr [[], [], [], [0]]"
  by code_simp

text \<open>
  C4. On a manager with at least one workspace, \<^verbatim>\<open>switch_to\<close> with any integer index
  \<open>i\<close> sets \<^verbatim>\<open>current\<close> to \<open>i mod count\<close> and makes that canvas the visible one of the
  stack. The canvases (their layouts and stacking orders), every window's state, the
  window list and the focus are unchanged.
\<close>

theorem switch_to_wraps:
  assumes "0 < count (workspace_manager s)"
  shows "\<exists>s'. workspace_manager_switch_to s i = Inr s' \<and>
           current (workspace_manager s') = i mod count (workspace_manager s) \<and>
           count (workspace_manager s') = count (workspace_manager s) \<and>
           workspaces (workspace_manager s') = workspaces (workspace_manager s) \<and>
           widgets s' = widgets s \<and> windows s' = windows s \<and>
           focus_widget s' = focus_widget s \<and>
           (int (length (workspaces (workspace_manager s))) = count (workspace_manager s) \<longrightarrow>
              stack_index (workspace_manager s') = i mod count (workspace_manager s))"
  using assms
  by (simp add: workspace_manager_switch_to_def switch_to_def setCurrentIndex_def Let_def)

text \<open>The scenario: \<^verbatim>\<open>switch_to(7)\<close> with four workspaces.\<close>

theorem switch_to_wraps_witness:
  "0 < count (workspace_manager three_windows) \<and>
   (\<exists>s'. workspace_manager_switch_to three_windows 7 = Inr s' \<and>
      current (workspace_manager s') = 3 \<and> stack_index (workspace_manager s') = 3 \<and>
      widgets s' = widgets three_windows \<and> windows s' = windows three_windows)"
proof -
  have c: "count (workspace_manager three_windows) = 4"
    by code_simp
  have l: "length (workspaces (workspace_manager three_windows)) = 4"
    by code_simp
  from switch_to_wraps [of three_windows 7] c l
  show ?thesis by auto
qed

subsection \<open>Overlay layout\<close>

text \<open>
  C9. \<^verbatim>\<open>reposition_overlays\<close> changes no window, nor the window list or the workspaces.
  Once the three overlays exist, the rectangles it writes depend on the screen size and
  the constants \<open>PANEL_HEIGHT = 48\<close>, \<open>DOCK_WIDTH = 64\<close> and the margin 8 only: the panel
  is at the top, as wide as the screen and \<open>PANEL_HEIGHT\<close> high; the dock is \<open>DOCK_WIDTH\<close>
  wide and its height is the screen height minus \<open>PANEL_HEIGHT\<close> minus twice the margin.
\<close>

theorem reposition_overlays_layout:
  "PANEL_HEIGHT = 48 \<and> DOCK_WIDTH = 64 \<and>
   widgets (reposition_overlays sz s) = widgets s \<and>
   windows (reposition_overlays sz s) = windows s \<and>
   workspace_manager (reposition_overlays sz s) = workspace_manager s \<and>
   (panel s \<noteq> None \<and> dock s \<noteq> None \<and> notifications s \<noteq> None \<longrightarrow>
      panel (reposition_overlays sz s) =
        Some \<lparr>rect_x = 0, rect_y = 0, rect_w = size_w sz, rect_h = PANEL_HEIGHT\<rparr> \<and>
      dock (reposition_overlays sz s) =
        Some \<lparr>rect_x = 8, rect_y = PANEL_HEIGHT + 8, rect_w = DOCK_WIDTH,
              rect_h = size_h sz - PANEL_HEIGHT - 2 * 8\<rparr> \<and>
      map_option nc_geometry (notifications (reposition_overlays sz s)) =
        Some \<lparr>rect_x = size_w sz - 340, rect_y = PANEL_HEIGHT + 8,
              rect_w = 320, rect_h = 400\<rparr>)"
  by (auto simp: reposition_overlays_def PANEL_HEIGHT_def DOCK_WIDTH_def)

text \<open>The scenario: the shell with three windows, laid out for a 1280 by 720 screen.\<close>

theorem reposition_overlays_layout_witness:
  "panel three_windows \<noteq> None \<and> dock three_windows \<noteq> None \<and>
   notifications three_windows \<noteq> None \<and>
   panel (reposition_overlays \<lparr>size_w = 1280, size_h = 720\<rparr> three_windows) =
     Some \<lparr>rect_x = 0, rect_y = 0, rect_w = 1280, rect_h = 48\<rparr> \<and>
   dock (reposition_overlays \<lparr>size_w = 1280, size_h = 720\<rparr> three_windows) =
     Some \<lparr>rect_x = 8, rect_y = 56, rect_w = 64, rect_h = 656\<rparr> \<and>
   widgets (reposition_overlays \<lparr>size_w = 1280, size_h = 720\<rparr> three_windows) =
     widgets three_windows"
proof -
  have p: "panel three_windows \<noteq> None"
    by code_simp
  have d: "dock three_windows \<noteq> None"
    by code_simp
  have n: "notifications three_windows \<noteq> None"
    by code_simp
  from reposition_overlays_layout [of "\<lparr>size_w = 1280, size_h = 720\<rparr>" three_windows] p d n
  show ?thesis by simp
qed

subsection \<open>Launching something that is no internal application\<close>

lemma push_last:
  "nc_notifications (push nc t x) \<noteq> [] \<and> last (nc_notifications (push nc t x)) = (t, x)"
  by (simp add: push_def Let_def)

text \<open>
  C10. Let \<open>str_lower\<close> be \<^verbatim>\<open>str.lower\<close>. For a name whose lowered form is none of
  \<open>terminal\<close>, \<open>editor\<close>, \<open>browser\<close> and \<open>files\<close>, \<^verbatim>\<open>launch_app\<close> starts an external
  process named by the lowered name. When the process starts the result is \<^verbatim>\<open>None\<close>
  and only the list of started processes has grown. When starting it raises, the result
  is \<^verbatim>\<open>None\<close> and the notification centre has received the notification
  \<open>Launch failed\<close> with the text of the exception. Whenever \<^verbatim>\<open>launch_app\<close> returns, no
  window was created: the window list, the windows and every workspace are unchanged.
  The statement holds for every lowering function, so for \<^verbatim>\<open>str.lower\<close> on every
  string.
\<close>

theorem launch_app_unknown:
  assumes "str_lower name \<noteq> ''terminal''" and "str_lower name \<noteq> ''editor''"
    and "str_lower name \<noteq> ''browser''" and "str_lower name \<noteq> ''files''"
  shows "(popen [str_lower name] = None \<longrightarrow>
            launch_app str_lower popen s name =
              Inr (s\<lparr>spawned := spawned s @ [[str_lower name]]\<rparr>, None)) \<and>
         (\<forall>e nc. popen [str_lower name] = Some e \<and> notifications s = Some nc \<longrightarrow>
            launch_app str_lower popen s name =
              Inr (s\<lparr>notifications := Some (push nc ''Launch failed'' (str_of_error e))\<rparr>,
                   None) \<and>
            last (nc_notifications (push nc ''Launch failed'' (str_of_error e))) =
              (''Launch failed'', str_of_error e)) \<and>
         (\<forall>s' r. launch_app str_lower popen s name = Inr (s', r) \<longrightarrow>
            r = None \<and> windows s' = windows s \<and> widgets s' = widgets s \<and>
            workspace_manager s' = workspace_manager s)"
  using assms
  by (auto simp: launch_app_def Let_def push_last split: option.splits)

text \<open>The ASCII name \<open>Firefox\<close>, which \<^verbatim>\<open>str.lower\<close> turns into \<open>firefox\<close>.\<close>

theorem launch_app_unknown_witness:
  "ascii_lower ''Firefox'' = ''firefox'' \<and>
   launch_app ascii_lower (\<lambda>argv. None) three_windows ''Firefox'' =
     Inr (three_windows\<lparr>spawned := [[''firefox'']]\<rparr>, None) \<and>
   (\<exists>s'. launch_app ascii_lower (\<lambda>argv. Some (OSError ''No such file or directory''))
            three_windows ''Firefox'' = Inr (s', None) \<and>
          map_option (last \<circ> nc_notifications) (notifications s') =
            Some (''Launch failed'', ''No such file or directory'') \<and>
          windows s' = windows three_windows \<and> widgets s' = widgets three_windows \<and>
          workspace_manager s' = workspace_manager three_windows)"
proof -
  have n: "ascii_lower ''Firefox'' = ''firefox''"
    by code_simp
  have h: "ascii_lower ''Firefox'' \<noteq> ''terminal''" "ascii_lower ''Firefox'' \<noteq> ''editor''"
    "ascii_lower ''Firefox'' \<noteq> ''browser''" "ascii_lower ''Firefox'' \<noteq> ''files''"
    by (simp_all add: n)
  have sp: "spawned three_windows = []"
    by code_simp
  have "notifications three_windows \<noteq> None"
    by code_simp
  then obtain nc where nc: "notifications three_windows = Some nc"
    by auto
  from launch_app_unknown [where str_lower = ascii_lower and name = "''Firefox''"
      and popen = "\<lambda>argv. None" and s = three_windows, OF h] n sp
  have 1: "launch_app ascii_lower (\<lambda>argv. None) three_windows ''Firefox'' =
             Inr (three_windows\<lparr>spawned := [[''firefox'']]\<rparr>, None)"
    by simp
  from launch_app_unknown [where str_lower = ascii_lower and name = "''Firefox''"
      and popen = "\<lambda>argv. Some (OSError ''No such file or directory'')"
      and s = three_windows, OF h] nc n
  have 2: "launch_app ascii_lower (\<lambda>argv. Some (OSError ''No such file or directory''))
             three_windows ''Firefox'' =
           Inr (three_windows\<lparr>notifications :=
                  Some (push nc ''Launch failed'' ''No such file or directory'')\<rparr>, None)"
    and 3: "last (nc_notifications (push nc ''Launch failed'' ''No such file or directory'')) =
              (''Launch failed'', ''No such file or directory'')"
    by simp_all
  from n 1 2 3 show ?thesis by simp
qed

end
